theory Spec2Isabelle
  imports Main "HOL-Library.AList"
begin

section \<open>Data model of a raw dataflow graph\<close>

text \<open>
  The functions of \<^verbatim>\<open>fpga_topwrap/kpm_common.py\<close> read decoded JSON: dictionaries with
  fixed keys. Each kind of dictionary is a record holding the keys the code reads:
  an interface (\<^verbatim>\<open>'id'\<close>, \<^verbatim>\<open>'name'\<close>, \<^verbatim>\<open>'direction'\<close>), a node (\<^verbatim>\<open>'type'\<close>, \<^verbatim>\<open>'name'\<close>,
  \<^verbatim>\<open>'interfaces'\<close>), a connection (\<^verbatim>\<open>'from'\<close>, \<^verbatim>\<open>'to'\<close>), the graph (\<^verbatim>\<open>'nodes'\<close>,
  \<^verbatim>\<open>'connections'\<close>) and the enclosing document (\<^verbatim>\<open>'graph'\<close>). Field names carry a
  prefix because record fields share one name space.
\<close>

record interface =
  i_id :: string
  i_name :: string
  i_direction :: string

record node =
  n_type :: string
  n_name :: string
  n_interfaces :: "interface list"

record connection =
  c_from :: string
  c_to :: string

record graph =
  nodes :: "node list"
  connections :: "connection list"

record dataflow =
  graph :: graph

text \<open>
  The value stored in the interface index:
  \<^verbatim>\<open>{"node_name": ..., "iface_name": ..., "iface_dir": ...}\<close>.
\<close>

record iface_entry =
  node_name :: string
  iface_name :: string
  iface_dir :: string

text \<open>
  A Python \<^verbatim>\<open>dict\<close> keeps its keys in the order of their first insertion, and an
  assignment to a key that is present replaces the value where it stands. An association
  list with \<^const>\<open>AList.update\<close> behaves the same way: \<open>d[k] = v\<close> is
  \<open>AList.update k v d\<close>, \<open>d.keys()\<close> is \<open>map fst d\<close> and \<open>d[k]\<close> for a key that is
  present is \<open>map_of d k\<close>.
\<close>

type_synonym iface_dict = "(string \<times> iface_entry) list"

definition dict_keys :: "('k \<times> 'v) list \<Rightarrow> 'k list" where
  "dict_keys d = map fst d"

section \<open>The functions of kpm\_common.py\<close>

definition EXT_INPUT_NAME :: string where
  "EXT_INPUT_NAME = ''External Input''"

definition EXT_OUTPUT_NAME :: string where
  "EXT_OUTPUT_NAME = ''External Output''"

text \<open>\<^verbatim>\<open>return (node['type'] in [EXT_INPUT_NAME, EXT_OUTPUT_NAME])\<close>\<close>

definition is_external_metanode :: "node \<Rightarrow> bool" where
  "is_external_metanode node \<longleftrightarrow> n_type node \<in> set [EXT_INPUT_NAME, EXT_OUTPUT_NAME]"

definition get_dataflow_ip_nodes :: "dataflow \<Rightarrow> node list" where
  "get_dataflow_ip_nodes dataflow_json =
     filter (\<lambda>node. \<not> is_external_metanode node) (nodes (graph dataflow_json))"

definition get_dataflow_metanodes :: "dataflow \<Rightarrow> node list" where
  "get_dataflow_metanodes dataflow_json =
     filter (\<lambda>node. is_external_metanode node) (nodes (graph dataflow_json))"

text \<open>
  The two nested \<^verbatim>\<open>for\<close> loops of \<^verbatim>\<open>_get_interfaces\<close>, each a \<^const>\<open>fold\<close> that
  threads the dictionary \<^verbatim>\<open>result\<close>, starting from the empty one.
\<close>

definition get_interfaces :: "node list \<Rightarrow> iface_dict" where
  "get_interfaces ns =
     fold (\<lambda>node result.
        fold (\<lambda>interface result.
           AList.update (i_id interface)
             \<lparr>node_name = n_name node,
              iface_name = i_name interface,
              iface_dir = i_direction interface\<rparr> result)
          (n_interfaces node) result)
       ns []"

definition get_dataflow_ips_interfaces :: "dataflow \<Rightarrow> iface_dict" where
  "get_dataflow_ips_interfaces dataflow_json =
     get_interfaces (get_dataflow_ip_nodes dataflow_json)"

definition get_dataflow_ip_connections :: "dataflow \<Rightarrow> connection list" where
  "get_dataflow_ip_connections dataflow_json =
     (let ifaces_ids = dict_keys (get_dataflow_ips_interfaces dataflow_json)
      in filter (\<lambda>conn. c_from conn \<in> set ifaces_ids \<and> c_to conn \<in> set ifaces_ids)
           (connections (graph dataflow_json)))"

definition get_dataflow_externals_interfaces :: "dataflow \<Rightarrow> iface_dict" where
  "get_dataflow_externals_interfaces dataflow_json =
     get_interfaces (get_dataflow_metanodes dataflow_json)"

definition get_dataflow_external_connections :: "dataflow \<Rightarrow> connection list" where
  "get_dataflow_external_connections dataflow_json =
     (let ifaces_ids = dict_keys (get_dataflow_externals_interfaces dataflow_json)
      in filter (\<lambda>conn. c_from conn \<in> set ifaces_ids \<or> c_to conn \<in> set ifaces_ids)
           (connections (graph dataflow_json)))"

text \<open>
  \<^verbatim>\<open>find_dataflow_interface_by_id\<close> returns the entry when the id is a key and falls off
  its end otherwise, which in Python returns \<^verbatim>\<open>None\<close>.
\<close>

definition find_dataflow_interface_by_id :: "dataflow \<Rightarrow> string \<Rightarrow> iface_entry option" where
  "find_dataflow_interface_by_id dataflow_json iface_id =
     (let interfaces = get_interfaces (nodes (graph dataflow_json))
      in if iface_id \<in> set (dict_keys interfaces)
         then map_of interfaces iface_id
         else None)"

text \<open>
  The specification catalog read by \<^verbatim>\<open>find_spec_interface_by_name\<close>: the document's
  \<^verbatim>\<open>'nodes'\<close>, each with a \<^verbatim>\<open>'type'\<close> and \<^verbatim>\<open>'interfaces'\<close>, the interfaces with a
  \<^verbatim>\<open>'name'\<close>. The interface dictionary is returned whole, so its remaining content is
  a type parameter.
\<close>

record 'a spec_interface =
  si_name :: string
  si_rest :: 'a

record 'a spec_node =
  sn_type :: string
  sn_interfaces :: "'a spec_interface list"

record 'a kpm_specification =
  spec_nodes :: "'a spec_node list"

text \<open>The inner loop: the first interface with the name, or falling through.\<close>

fun scan_interfaces :: "'a spec_interface list \<Rightarrow> string \<Rightarrow> 'a spec_interface option" where
  "scan_interfaces [] name = None"
| "scan_interfaces (interface # rest) name =
     (if si_name interface = name then Some interface
      else scan_interfaces rest name)"

text \<open>
  The outer loop: a node of another type is skipped (\<^verbatim>\<open>continue\<close>); a node of the type
  whose interfaces hold no match lets the loop go on to the next node.
\<close>

fun scan_nodes :: "'a spec_node list \<Rightarrow> string \<Rightarrow> string \<Rightarrow> 'a spec_interface option" where
  "scan_nodes [] node_type name = None"
| "scan_nodes (node # rest) node_type name =
     (if sn_type node \<noteq> node_type then scan_nodes rest node_type name
      else (case scan_interfaces (sn_interfaces node) name of
              Some interface \<Rightarrow> Some interface
            | None \<Rightarrow> scan_nodes rest node_type name))"

definition find_spec_interface_by_name ::
  "'a kpm_specification \<Rightarrow> string \<Rightarrow> string \<Rightarrow> 'a spec_interface option" where
  "find_spec_interface_by_name spec node_type name =
     scan_nodes (spec_nodes spec) node_type name"

fun scan_names :: "node list \<Rightarrow> string \<Rightarrow> string option" where
  "scan_names [] name = None"
| "scan_names (node # rest) name =
     (if n_name node = name then Some (n_type node) else scan_names rest name)"

definition find_dataflow_node_type_by_name :: "dataflow \<Rightarrow> string \<Rightarrow> string option" where
  "find_dataflow_node_type_by_name dataflow_data name =
     scan_names (nodes (graph dataflow_data)) name"

section \<open>The editor-facing specification\<close>

text \<open>
  The translator (\<^verbatim>\<open>ipcore_yamls_to_kpm_spec\<close> in
  \<^verbatim>\<open>fpga_topwrap/yamls_to_kpm_spec_parser.py\<close>) is called by
  \<^verbatim>\<open>tests/test_kpm_hdmi_design.py\<close>, but its module is not among the sources. The
  catalog and the descriptors below follow sections 3 and 4.5 of the specification.
\<close>

datatype direction = Input | Output | Inout

record catalog_interface =
  ci_name :: string
  ci_direction :: direction
  ci_multi_connectable :: bool

record catalog_entry =
  ce_type :: string
  ce_interfaces :: "catalog_interface list"

record descriptor_interface =
  di_name :: string
  di_direction :: direction

record descriptor =
  d_type :: string
  d_interfaces :: "descriptor_interface list"

text \<open>
  Modelled from the spec: the node-type descriptor of a catalog entry, absent from the
  sources. "For each catalog entry, emit a node-type descriptor whose interfaces list
  mirrors the Specification's interfaces (name, direction)".
\<close>

definition entry_descriptor :: "catalog_entry \<Rightarrow> descriptor" where
  "entry_descriptor e =
     \<lparr>d_type = ce_type e,
      d_interfaces = map (\<lambda>i. \<lparr>di_name = ci_name i, di_direction = ci_direction i\<rparr>) (ce_interfaces e)\<rparr>"

text \<open>
  Modelled from the spec: the two fixed metanode descriptors, absent from the sources.
  "Each with exactly one interface of the convention-fixed direction", and "external-input
  node exposes an output-direction interface to the internal graph, and vice versa". The
  specification does not name the interface, so its name is a parameter.
\<close>

definition external_input_descriptor :: "string \<Rightarrow> descriptor" where
  "external_input_descriptor port =
     \<lparr>d_type = EXT_INPUT_NAME, d_interfaces = [\<lparr>di_name = port, di_direction = Output\<rparr>]\<rparr>"

definition external_output_descriptor :: "string \<Rightarrow> descriptor" where
  "external_output_descriptor port =
     \<lparr>d_type = EXT_OUTPUT_NAME, d_interfaces = [\<lparr>di_name = port, di_direction = Input\<rparr>]\<rparr>"

text \<open>
  Modelled from the spec: \<open>to_editor_specification(catalog)\<close>, absent from the sources:
  the descriptors of the catalog entries, in catalog order, "plus the two fixed metanode
  descriptors (external-input, external-output)".
\<close>

definition to_editor_specification :: "string \<Rightarrow> catalog_entry list \<Rightarrow> descriptor list" where
  "to_editor_specification port catalog =
     map entry_descriptor catalog @ [external_input_descriptor port, external_output_descriptor port]"

section \<open>Vocabulary of the statements\<close>

text \<open>
  The entry that \<^verbatim>\<open>_get_interfaces\<close> stores for an interface of a node, the interface
  ids of a list of nodes in iteration order (node by node, interface by interface), and
  the (id, entry) pairs in the same order: the assignments the two loops perform.
\<close>

definition entry_of :: "node \<Rightarrow> interface \<Rightarrow> iface_entry" where
  "entry_of n i = \<lparr>node_name = n_name n, iface_name = i_name i, iface_dir = i_direction i\<rparr>"

definition interface_ids :: "node list \<Rightarrow> string list" where
  "interface_ids ns = concat (map (\<lambda>n. map i_id (n_interfaces n)) ns)"

definition bindings :: "node list \<Rightarrow> (string \<times> iface_entry) list" where
  "bindings ns = concat (map (\<lambda>n. map (\<lambda>i. (i_id i, entry_of n i)) (n_interfaces n)) ns)"

section \<open>Example inputs\<close>

text \<open>
  A graph with one IP core \<open>u0\<close> of type \<open>uart\<close> and two metanodes. Its connections:
  core to metanode, metanode to core, core to core, and one whose target id belongs to
  no node.
\<close>

definition u0 :: node where
  "u0 = \<lparr>n_type = ''uart'', n_name = ''u0'',
          n_interfaces = [\<lparr>i_id = ''a'', i_name = ''tx'', i_direction = ''output''\<rparr>,
                          \<lparr>i_id = ''b'', i_name = ''rx'', i_direction = ''input''\<rparr>]\<rparr>"

definition out0 :: node where
  "out0 = \<lparr>n_type = ''External Output'', n_name = ''out0'',
          n_interfaces = [\<lparr>i_id = ''c'', i_name = ''external'', i_direction = ''input''\<rparr>]\<rparr>"

definition in0 :: node where
  "in0 = \<lparr>n_type = ''External Input'', n_name = ''in0'',
          n_interfaces = [\<lparr>i_id = ''d'', i_name = ''external'', i_direction = ''output''\<rparr>]\<rparr>"

definition demo :: dataflow where
  "demo = \<lparr>graph = \<lparr>nodes = [u0, out0, in0],
                     connections = [\<lparr>c_from = ''a'', c_to = ''c''\<rparr>,
                                    \<lparr>c_from = ''d'', c_to = ''b''\<rparr>,
                                    \<lparr>c_from = ''a'', c_to = ''b''\<rparr>,
                                    \<lparr>c_from = ''a'', c_to = ''zz''\<rparr>]\<rparr>\<rparr>"

text \<open>
  A second core whose two interfaces both carry the id \<open>a\<close>, which \<open>u0\<close> uses as well.
\<close>

definition u1 :: node where
  "u1 = \<lparr>n_type = ''uart'', n_name = ''u1'',
          n_interfaces = [\<lparr>i_id = ''a'', i_name = ''tx'', i_direction = ''output''\<rparr>,
                          \<lparr>i_id = ''a'', i_name = ''rx'', i_direction = ''input''\<rparr>]\<rparr>"

text \<open>A catalog in the editor's format with two types, its interfaces carrying a direction.\<close>

definition demo_spec :: "string kpm_specification" where
  "demo_spec = \<lparr>spec_nodes =
     [\<lparr>sn_type = ''uart'', sn_interfaces = [\<lparr>si_name = ''tx'', si_rest = ''output''\<rparr>,
                                             \<lparr>si_name = ''rx'', si_rest = ''input''\<rparr>]\<rparr>,
      \<lparr>sn_type = ''spi'', sn_interfaces = [\<lparr>si_name = ''clk'', si_rest = ''output''\<rparr>]\<rparr>]\<rparr>"

text \<open>
  The twelve IP-core types of the fixture of \<^verbatim>\<open>test_hdmi_specification_generation\<close>;
  their interface lists are not among the sources and play no part in the count.
\<close>

definition hdmi_catalog :: "catalog_entry list" where
  "hdmi_catalog = map (\<lambda>t. \<lparr>ce_type = t, ce_interfaces = []\<rparr>)
     [''axi_dispctrl'', ''clock_crossing'', ''dma_axi_in_axis_out'', ''hdmi_tx'', ''litex_mmcm'',
      ''proc_sys_reset'', ''ps7'', ''axi_axil_adapter'', ''axi_interconnect'',
      ''axi_protocol_converter'', ''axis_dwidth_converter'', ''axis_async_fifo'']"

lemmas demo_defs = demo_def u0_def out0_def in0_def

section \<open>The interface index as a list of assignments\<close>

lemma is_external_metanode_iff:
  "is_external_metanode n \<longleftrightarrow> n_type n = ''External Input'' \<or> n_type n = ''External Output''"
  by (simp add: is_external_metanode_def EXT_INPUT_NAME_def EXT_OUTPUT_NAME_def)

lemma map_fst_bindings: "map fst (bindings ns) = interface_ids ns"
  by (induction ns) (simp_all add: bindings_def interface_ids_def comp_def)

lemma fold_nodes_bindings:
  "fold (\<lambda>node result.
        fold (\<lambda>interface result.
           AList.update (i_id interface)
             \<lparr>node_name = n_name node,
              iface_name = i_name interface,
              iface_dir = i_direction interface\<rparr> result)
          (n_interfaces node) result) ns d
   = fold (\<lambda>(k, v). AList.update k v) (bindings ns) d"
proof (induction ns arbitrary: d)
  case Nil
  show ?case by (simp add: bindings_def)
next
  case (Cons n ns)
  have inner: "fold (\<lambda>interface result.
           AList.update (i_id interface)
             \<lparr>node_name = n_name n,
              iface_name = i_name interface,
              iface_dir = i_direction interface\<rparr> result) xs d
     = fold (\<lambda>(k, v). AList.update k v) (map (\<lambda>i. (i_id i, entry_of n i)) xs) d" for xs d
    by (induction xs arbitrary: d) (simp_all add: entry_of_def)
  have "bindings (n # ns) = map (\<lambda>i. (i_id i, entry_of n i)) (n_interfaces n) @ bindings ns"
    by (simp add: bindings_def)
  then show ?case using Cons.IH by (simp add: inner)
qed

lemma get_interfaces_bindings:
  "get_interfaces ns = fold (\<lambda>(k, v). AList.update k v) (bindings ns) []"
  by (simp add: get_interfaces_def fold_nodes_bindings)

lemma keys_fold_update:
  "fst ` set (fold (\<lambda>(k, v). AList.update k v) kvs d) = fst ` set d \<union> fst ` set kvs"
proof (induction kvs arbitrary: d)
  case Nil
  show ?case by simp
next
  case (Cons p kvs)
  obtain k v where p: "p = (k, v)" by (cases p)
  have "fst ` set (AList.update k v d) = {k} \<union> fst ` set d"
    by (rule AList.dom_update)
  then show ?case by (simp add: p Cons.IH Un_commute insert_commute Un_left_commute)
qed

lemma map_of_fold_update:
  "map_of (fold (\<lambda>(k, v). AList.update k v) kvs d) = map_of d ++ map_of (rev kvs)"
proof (induction kvs arbitrary: d)
  case Nil
  show ?case by simp
next
  case (Cons p kvs)
  obtain k v where p: "p = (k, v)" by (cases p)
  show ?case
    by (simp add: p Cons.IH AList.update_conv' map_add_upd_left fun_eq_iff map_add_def split: option.splits)
qed

lemma fold_update_distinct:
  "distinct (map fst (d @ kvs)) \<Longrightarrow> fold (\<lambda>(k, v). AList.update k v) kvs d = d @ kvs"
proof (induction kvs arbitrary: d)
  case Nil
  show ?case by simp
next
  case (Cons p kvs)
  obtain k v where p: "p = (k, v)" by (cases p)
  have fresh: "k \<notin> fst ` set d" using Cons.prems by (auto simp: p)
  have app: "AList.update k v d = d @ [(k, v)]" using fresh
    by (induction d) auto
  have "distinct (map fst ((d @ [(k, v)]) @ kvs))" using Cons.prems by (simp add: p)
  from Cons.IH [OF this] show ?case by (simp add: p app)
qed

lemma get_interfaces_keys: "set (dict_keys (get_interfaces ns)) = set (interface_ids ns)"
  using keys_fold_update [of "bindings ns" "[]"]
  by (simp add: dict_keys_def get_interfaces_bindings map_fst_bindings [symmetric])

lemma get_interfaces_lookup: "map_of (get_interfaces ns) = map_of (rev (bindings ns))"
  by (simp add: get_interfaces_bindings map_of_fold_update)

lemma get_interfaces_distinct:
  "distinct (interface_ids ns) \<Longrightarrow> get_interfaces ns = bindings ns"
  by (simp add: get_interfaces_bindings fold_update_distinct map_fst_bindings)

lemma interface_ids_filter:
  "set (interface_ids (filter P ns)) = {k. \<exists>n\<in>set ns. P n \<and> k \<in> i_id ` set (n_interfaces n)}"
  by (auto simp: interface_ids_def)

lemma interface_ids_split:
  "set (interface_ids ns) = set (interface_ids (filter P ns)) \<union> set (interface_ids (filter (\<lambda>n. \<not> P n) ns))"
  by (auto simp: interface_ids_def)

lemma distinct_interface_ids_filter:
  "distinct (interface_ids ns) \<Longrightarrow> distinct (interface_ids (filter P ns))"
  unfolding interface_ids_def
  by (induction ns) auto

lemma distinct_interface_ids_disjoint:
  "distinct (interface_ids ns) \<Longrightarrow>
     set (interface_ids (filter P ns)) \<inter> set (interface_ids (filter (\<lambda>n. \<not> P n) ns)) = {}"
proof (induction ns)
  case Nil
  show ?case by (simp add: interface_ids_def)
next
  case (Cons n ns)
  have tl: "distinct (interface_ids ns)"
    and fresh: "set (map i_id (n_interfaces n)) \<inter> set (interface_ids ns) = {}"
    using Cons.prems by (simp_all add: interface_ids_def)
  have step: "set (interface_ids (n # xs)) = set (map i_id (n_interfaces n)) \<union> set (interface_ids xs)" for xs
    by (simp add: interface_ids_def)
  have sub: "set (interface_ids (filter Q ns)) \<subseteq> set (interface_ids ns)" for Q
    by (auto simp: interface_ids_def)
  show ?case
  proof (cases "P n")
    case True
    then show ?thesis using Cons.IH [OF tl] fresh sub [of "\<lambda>n. \<not> P n"]
      by (simp add: step del: set_map) blast
  next
    case False
    then show ?thesis using Cons.IH [OF tl] fresh sub [of P]
      by (simp add: step del: set_map) blast
  qed
qed

lemma ip_keys:
  "set (dict_keys (get_dataflow_ips_interfaces g)) = set (interface_ids (get_dataflow_ip_nodes g))"
  by (simp add: get_dataflow_ips_interfaces_def get_interfaces_keys)

lemma ext_keys:
  "set (dict_keys (get_dataflow_externals_interfaces g)) = set (interface_ids (get_dataflow_metanodes g))"
  by (simp add: get_dataflow_externals_interfaces_def get_interfaces_keys)

section \<open>Partition of the nodes\<close>

text \<open>
  C2. The IP-core nodes and the metanodes of a graph together are its nodes, no node is in
  both lists and none is counted twice (the lengths add up), and a node is a metanode
  exactly when its type is \<open>External Input\<close> or \<open>External Output\<close>: the two lists are the
  filters of the node list by that test on the type alone.
\<close>

theorem nodes_partition:
  "set (get_dataflow_ip_nodes g) \<union> set (get_dataflow_metanodes g) = set (nodes (graph g))
   \<and> set (get_dataflow_ip_nodes g) \<inter> set (get_dataflow_metanodes g) = {}
   \<and> length (get_dataflow_ip_nodes g) + length (get_dataflow_metanodes g) = length (nodes (graph g))
   \<and> get_dataflow_metanodes g =
       filter (\<lambda>n. n_type n = ''External Input'' \<or> n_type n = ''External Output'') (nodes (graph g))
   \<and> get_dataflow_ip_nodes g =
       filter (\<lambda>n. \<not> (n_type n = ''External Input'' \<or> n_type n = ''External Output'')) (nodes (graph g))
   \<and> (is_external_metanode n \<longleftrightarrow> n_type n = ''External Input'' \<or> n_type n = ''External Output'')"
proof -
  have "length (filter (\<lambda>n. \<not> is_external_metanode n) xs) + length (filter is_external_metanode xs)
        = length xs" for xs
    using sum_length_filter_compl [of is_external_metanode xs] by simp
  then have len: "length (get_dataflow_ip_nodes g) + length (get_dataflow_metanodes g)
      = length (nodes (graph g))"
    by (simp add: get_dataflow_ip_nodes_def get_dataflow_metanodes_def)
  have sets: "set (get_dataflow_ip_nodes g) \<union> set (get_dataflow_metanodes g) = set (nodes (graph g))"
    "set (get_dataflow_ip_nodes g) \<inter> set (get_dataflow_metanodes g) = {}"
    by (auto simp: get_dataflow_ip_nodes_def get_dataflow_metanodes_def)
  have filters: "get_dataflow_metanodes g =
       filter (\<lambda>n. n_type n = ''External Input'' \<or> n_type n = ''External Output'') (nodes (graph g))"
    "get_dataflow_ip_nodes g =
       filter (\<lambda>n. \<not> (n_type n = ''External Input'' \<or> n_type n = ''External Output'')) (nodes (graph g))"
    by (simp_all add: get_dataflow_ip_nodes_def get_dataflow_metanodes_def is_external_metanode_iff)
  show ?thesis using len sets filters is_external_metanode_iff [of n] by blast
qed

theorem nodes_partition_witness:
  "get_dataflow_ip_nodes demo = [u0] \<and> get_dataflow_metanodes demo = [out0, in0]
   \<and> set (get_dataflow_ip_nodes demo) \<union> set (get_dataflow_metanodes demo) = set (nodes (graph demo))
   \<and> set (get_dataflow_ip_nodes demo) \<inter> set (get_dataflow_metanodes demo) = {}
   \<and> is_external_metanode out0 \<and> \<not> is_external_metanode u0"
  using nodes_partition [of demo out0] nodes_partition [of demo u0]
  by (simp add: demo_defs)

section \<open>Partition of the connections\<close>

text \<open>
  C3. \<^verbatim>\<open>get_dataflow_ip_connections\<close> returns, in the graph's order, the connections
  whose \<open>from\<close> and \<open>to\<close> ids are both keys of the index built over the IP-core nodes,
  and those keys are the interface ids of the nodes that are not metanodes. A connection
  with an endpoint that is the id of no node at all is not returned. The function is
  total: it returns a list on every graph and has no error branch.
\<close>

theorem ip_connections_exact:
  "get_dataflow_ip_connections g =
     filter (\<lambda>c. c_from c \<in> dom (map_of (get_dataflow_ips_interfaces g))
               \<and> c_to c \<in> dom (map_of (get_dataflow_ips_interfaces g)))
       (connections (graph g))
   \<and> dom (map_of (get_dataflow_ips_interfaces g)) =
       {k. \<exists>n\<in>set (nodes (graph g)). \<not> is_external_metanode n \<and> k \<in> i_id ` set (n_interfaces n)}
   \<and> (\<forall>c. c_from c \<notin> set (interface_ids (nodes (graph g)))
            \<or> c_to c \<notin> set (interface_ids (nodes (graph g)))
          \<longrightarrow> c \<notin> set (get_dataflow_ip_connections g))"
proof -
  let ?idx = "get_dataflow_ips_interfaces g"
  have dom_keys: "dom (map_of ?idx) = set (dict_keys ?idx)"
    by (simp add: dom_map_of_conv_image_fst dict_keys_def)
  have keys: "set (dict_keys ?idx) =
      {k. \<exists>n\<in>set (nodes (graph g)). \<not> is_external_metanode n \<and> k \<in> i_id ` set (n_interfaces n)}"
    by (simp add: ip_keys get_dataflow_ip_nodes_def interface_ids_filter)
  have sub: "set (dict_keys ?idx) \<subseteq> set (interface_ids (nodes (graph g)))"
    using interface_ids_split [of "nodes (graph g)" "\<lambda>n. \<not> is_external_metanode n"]
    by (simp add: ip_keys get_dataflow_ip_nodes_def)
  have "get_dataflow_ip_connections g =
     filter (\<lambda>c. c_from c \<in> set (dict_keys ?idx) \<and> c_to c \<in> set (dict_keys ?idx))
       (connections (graph g))"
    by (simp add: get_dataflow_ip_connections_def Let_def)
  then show ?thesis using sub keys by (auto simp: dom_keys)
qed

theorem ip_connections_exact_witness:
  "get_dataflow_ip_connections demo = [\<lparr>c_from = ''a'', c_to = ''b''\<rparr>]
   \<and> ''zz'' \<notin> set (interface_ids (nodes (graph demo)))
   \<and> \<lparr>c_from = ''a'', c_to = ''zz''\<rparr> \<notin> set (get_dataflow_ip_connections demo)
   \<and> \<lparr>c_from = ''a'', c_to = ''zz''\<rparr> \<in> set (connections (graph demo))"
proof -
  have dangling: "''zz'' \<notin> set (interface_ids (nodes (graph demo)))"
    by (simp add: demo_defs interface_ids_def)
  have idx: "get_dataflow_ips_interfaces demo =
      [(''a'', \<lparr>node_name = ''u0'', iface_name = ''tx'', iface_dir = ''output''\<rparr>),
       (''b'', \<lparr>node_name = ''u0'', iface_name = ''rx'', iface_dir = ''input''\<rparr>)]"
    by (simp add: get_dataflow_ips_interfaces_def get_dataflow_ip_nodes_def get_interfaces_def
        is_external_metanode_iff demo_defs)
  show ?thesis
    using ip_connections_exact [of demo] dangling
    by (simp add: idx) (simp add: demo_defs)
qed

text \<open>
  Both connection filters, read on the interface ids of the nodes instead of the keys of
  the two dictionaries.
\<close>

lemma external_connections_filter:
  "get_dataflow_external_connections g =
     filter (\<lambda>c. c_from c \<in> set (interface_ids (get_dataflow_metanodes g))
               \<or> c_to c \<in> set (interface_ids (get_dataflow_metanodes g)))
       (connections (graph g))"
  by (simp add: get_dataflow_external_connections_def Let_def ext_keys)

lemma ip_connections_filter:
  "get_dataflow_ip_connections g =
     filter (\<lambda>c. c_from c \<in> set (interface_ids (get_dataflow_ip_nodes g))
               \<and> c_to c \<in> set (interface_ids (get_dataflow_ip_nodes g)))
       (connections (graph g))"
  by (simp add: get_dataflow_ip_connections_def Let_def ip_keys)

lemma unique_ids_disjoint:
  "distinct (interface_ids (nodes (graph g))) \<Longrightarrow>
     set (interface_ids (get_dataflow_ip_nodes g))
       \<inter> set (interface_ids (get_dataflow_metanodes g)) = {}"
  using distinct_interface_ids_disjoint [of "nodes (graph g)" is_external_metanode]
  by (simp add: get_dataflow_ip_nodes_def get_dataflow_metanodes_def Int_commute)

text \<open>
  The partition needs of the ids only that none belongs both to an IP core and to a
  metanode.
\<close>

lemma connections_partition_disjoint:
  assumes disjoint: "set (interface_ids (get_dataflow_ip_nodes g))
                     \<inter> set (interface_ids (get_dataflow_metanodes g)) = {}"
    and c: "c \<in> set (connections (graph g))"
  shows "(c_from c \<in> set (interface_ids (get_dataflow_metanodes g))
            \<or> c_to c \<in> set (interface_ids (get_dataflow_metanodes g))
          \<longrightarrow> c \<in> set (get_dataflow_external_connections g)
              \<and> c \<notin> set (get_dataflow_ip_connections g))
       \<and> (c_from c \<in> set (interface_ids (get_dataflow_ip_nodes g))
            \<and> c_to c \<in> set (interface_ids (get_dataflow_ip_nodes g))
          \<longrightarrow> c \<in> set (get_dataflow_ip_connections g)
              \<and> c \<notin> set (get_dataflow_external_connections g))"
proof -
  have ext: "c \<in> set (get_dataflow_external_connections g) \<longleftrightarrow>
      c_from c \<in> set (interface_ids (get_dataflow_metanodes g))
      \<or> c_to c \<in> set (interface_ids (get_dataflow_metanodes g))"
    using c by (simp add: external_connections_filter)
  have ip: "c \<in> set (get_dataflow_ip_connections g) \<longleftrightarrow>
      c_from c \<in> set (interface_ids (get_dataflow_ip_nodes g))
      \<and> c_to c \<in> set (interface_ids (get_dataflow_ip_nodes g))"
    using c by (simp add: ip_connections_filter)
  show ?thesis unfolding ext ip using disjoint by blast
qed

text \<open>
  C1. In a graph whose interface ids are all different, a connection of the graph with
  an endpoint on a metanode interface is returned by
  \<^verbatim>\<open>get_dataflow_external_connections\<close> and not by \<^verbatim>\<open>get_dataflow_ip_connections\<close>,
  and a connection whose two endpoints are IP-core interfaces is returned by
  \<^verbatim>\<open>get_dataflow_ip_connections\<close> and not by \<^verbatim>\<open>get_dataflow_external_connections\<close>.
\<close>

theorem connections_partition:
  assumes unique: "distinct (interface_ids (nodes (graph g)))"
    and c: "c \<in> set (connections (graph g))"
  shows "(c_from c \<in> set (interface_ids (get_dataflow_metanodes g))
            \<or> c_to c \<in> set (interface_ids (get_dataflow_metanodes g))
          \<longrightarrow> c \<in> set (get_dataflow_external_connections g)
              \<and> c \<notin> set (get_dataflow_ip_connections g))
       \<and> (c_from c \<in> set (interface_ids (get_dataflow_ip_nodes g))
            \<and> c_to c \<in> set (interface_ids (get_dataflow_ip_nodes g))
          \<longrightarrow> c \<in> set (get_dataflow_ip_connections g)
              \<and> c \<notin> set (get_dataflow_external_connections g))"
  using connections_partition_disjoint [OF unique_ids_disjoint [OF unique] c] .

lemma demo_ids:
  "interface_ids (nodes (graph demo)) = [''a'', ''b'', ''c'', ''d'']"
  "interface_ids (get_dataflow_ip_nodes demo) = [''a'', ''b'']"
  "interface_ids (get_dataflow_metanodes demo) = [''c'', ''d'']"
  by (simp_all add: interface_ids_def get_dataflow_ip_nodes_def get_dataflow_metanodes_def
      is_external_metanode_iff demo_defs)

lemma demo_connections:
  "connections (graph demo) =
     [\<lparr>c_from = ''a'', c_to = ''c''\<rparr>, \<lparr>c_from = ''d'', c_to = ''b''\<rparr>,
      \<lparr>c_from = ''a'', c_to = ''b''\<rparr>, \<lparr>c_from = ''a'', c_to = ''zz''\<rparr>]"
  by (simp add: demo_def)

theorem connections_partition_witness:
  "distinct (interface_ids (nodes (graph demo)))
   \<and> \<lparr>c_from = ''a'', c_to = ''c''\<rparr> \<in> set (connections (graph demo))
   \<and> c_to \<lparr>c_from = ''a'', c_to = ''c''\<rparr> \<in> set (interface_ids (get_dataflow_metanodes demo))
   \<and> \<lparr>c_from = ''a'', c_to = ''c''\<rparr> \<in> set (get_dataflow_external_connections demo)
   \<and> \<lparr>c_from = ''a'', c_to = ''c''\<rparr> \<notin> set (get_dataflow_ip_connections demo)
   \<and> \<lparr>c_from = ''a'', c_to = ''b''\<rparr> \<in> set (connections (graph demo))
   \<and> c_from \<lparr>c_from = ''a'', c_to = ''b''\<rparr> \<in> set (interface_ids (get_dataflow_ip_nodes demo))
   \<and> c_to \<lparr>c_from = ''a'', c_to = ''b''\<rparr> \<in> set (interface_ids (get_dataflow_ip_nodes demo))
   \<and> \<lparr>c_from = ''a'', c_to = ''b''\<rparr> \<in> set (get_dataflow_ip_connections demo)
   \<and> \<lparr>c_from = ''a'', c_to = ''b''\<rparr> \<notin> set (get_dataflow_external_connections demo)"
proof -
  have unique: "distinct (interface_ids (nodes (graph demo)))"
    by (simp add: demo_ids)
  have mixed: "\<lparr>c_from = ''a'', c_to = ''c''\<rparr> \<in> set (connections (graph demo))"
    and core: "\<lparr>c_from = ''a'', c_to = ''b''\<rparr> \<in> set (connections (graph demo))"
    by (simp_all add: demo_connections)
  show ?thesis
    using unique mixed core
      connections_partition [OF unique mixed] connections_partition [OF unique core]
    by (simp add: demo_ids)
qed

text \<open>
  A filter keeps the entries at the positions that pass the test, each position once
  and in order.
\<close>

lemma filter_positions:
  "filter P xs = map ((!) xs) (filter (\<lambda>i. P (xs ! i)) [0..<length xs])"
proof -
  have "map ((!) xs) (filter (\<lambda>i. P (xs ! i)) [0..<length xs])
      = filter P (map ((!) xs) [0..<length xs])"
    by (simp add: filter_map comp_def)
  then show ?thesis by (simp add: map_nth)
qed

lemma count_list_filter:
  "count_list (filter P xs) c = (if P c then count_list xs c else 0)"
  by (induction xs) auto

text \<open>
  C4. \<^verbatim>\<open>get_dataflow_external_connections\<close> returns the connections of the graph with
  at least one endpoint among the interface ids of the metanodes: the entries of the
  connection list at the positions that pass this test, each position once and in the
  list's order, whether one endpoint or both are external. So the result holds a
  connection as often as the graph lists it and not once per external endpoint, and it
  holds no other connection.
\<close>

theorem external_connections_exact:
  "get_dataflow_external_connections g =
     filter (\<lambda>c. c_from c \<in> set (interface_ids (get_dataflow_metanodes g))
               \<or> c_to c \<in> set (interface_ids (get_dataflow_metanodes g)))
       (connections (graph g))
   \<and> get_dataflow_external_connections g =
       map ((!) (connections (graph g)))
         (filter (\<lambda>i. c_from (connections (graph g) ! i) \<in> set (interface_ids (get_dataflow_metanodes g))
                     \<or> c_to (connections (graph g) ! i) \<in> set (interface_ids (get_dataflow_metanodes g)))
            [0..<length (connections (graph g))])
   \<and> set (interface_ids (get_dataflow_metanodes g)) =
       {k. \<exists>n\<in>set (nodes (graph g)). is_external_metanode n \<and> k \<in> i_id ` set (n_interfaces n)}
   \<and> count_list (get_dataflow_external_connections g) c =
       (if c_from c \<in> set (interface_ids (get_dataflow_metanodes g))
           \<or> c_to c \<in> set (interface_ids (get_dataflow_metanodes g))
        then count_list (connections (graph g)) c else 0)"
proof -
  let ?P = "\<lambda>c. c_from c \<in> set (interface_ids (get_dataflow_metanodes g))
               \<or> c_to c \<in> set (interface_ids (get_dataflow_metanodes g))"
  have ids: "set (interface_ids (get_dataflow_metanodes g)) =
       {k. \<exists>n\<in>set (nodes (graph g)). is_external_metanode n \<and> k \<in> i_id ` set (n_interfaces n)}"
    by (simp add: get_dataflow_metanodes_def interface_ids_filter)
  have pos: "filter ?P (connections (graph g)) =
       map ((!) (connections (graph g)))
         (filter (\<lambda>i. ?P (connections (graph g) ! i)) [0..<length (connections (graph g))])"
    by (rule filter_positions)
  have cnt: "count_list (filter ?P (connections (graph g))) c =
      (if ?P c then count_list (connections (graph g)) c else 0)"
    by (rule count_list_filter)
  show ?thesis
    using ids pos cnt unfolding external_connections_filter by blast
qed

theorem external_connections_exact_witness:
  "get_dataflow_external_connections demo =
     [\<lparr>c_from = ''a'', c_to = ''c''\<rparr>, \<lparr>c_from = ''d'', c_to = ''b''\<rparr>]
   \<and> count_list (connections (graph demo)) \<lparr>c_from = ''a'', c_to = ''c''\<rparr> = 1
   \<and> count_list (get_dataflow_external_connections demo) \<lparr>c_from = ''a'', c_to = ''c''\<rparr> = 1
   \<and> count_list (get_dataflow_external_connections demo) \<lparr>c_from = ''a'', c_to = ''b''\<rparr> = 0"
proof -
  let ?P = "\<lambda>c. c_from c \<in> set (interface_ids (get_dataflow_metanodes demo))
               \<or> c_to c \<in> set (interface_ids (get_dataflow_metanodes demo))"
  have kept: "filter ?P (connections (graph demo)) =
      [\<lparr>c_from = ''a'', c_to = ''c''\<rparr>, \<lparr>c_from = ''d'', c_to = ''b''\<rparr>]"
    by (simp add: demo_ids demo_connections)
  have listed: "count_list (connections (graph demo)) \<lparr>c_from = ''a'', c_to = ''c''\<rparr> = 1"
    by (simp add: demo_connections)
  have mixed: "?P \<lparr>c_from = ''a'', c_to = ''c''\<rparr>"
    and core: "\<not> ?P \<lparr>c_from = ''a'', c_to = ''b''\<rparr>"
    by (simp_all add: demo_ids)
  note mixed_case = external_connections_exact [of demo "\<lparr>c_from = ''a'', c_to = ''c''\<rparr>"]
  note core_case = external_connections_exact [of demo "\<lparr>c_from = ''a'', c_to = ''b''\<rparr>"]
  have r: "get_dataflow_external_connections demo = filter ?P (connections (graph demo))"
    by (rule mixed_case [THEN conjunct1])
  have c1: "count_list (get_dataflow_external_connections demo) \<lparr>c_from = ''a'', c_to = ''c''\<rparr> =
       count_list (connections (graph demo)) \<lparr>c_from = ''a'', c_to = ''c''\<rparr>"
    using mixed_case [THEN conjunct2, THEN conjunct2, THEN conjunct2] mixed
    by (simp only: if_True)
  have c0: "count_list (get_dataflow_external_connections demo) \<lparr>c_from = ''a'', c_to = ''b''\<rparr> = 0"
    using core_case [THEN conjunct2, THEN conjunct2, THEN conjunct2] core
    by (simp only: if_False)
  show ?thesis using r kept listed c1 c0 by (simp only: simp_thms)
qed

section \<open>The interface index\<close>

lemma fst_set_bindings: "fst ` set (bindings ns) = set (interface_ids ns)"
  using arg_cong [OF map_fst_bindings, of set ns] by simp

lemma map_of_bindings_distinct:
  assumes "distinct (interface_ids ns)" "n \<in> set ns" "i \<in> set (n_interfaces n)"
  shows "map_of (bindings ns) (i_id i) = Some (entry_of n i)"
proof -
  have "distinct (map fst (bindings ns))" using assms(1) by (simp add: map_fst_bindings)
  moreover have "(i_id i, entry_of n i) \<in> set (bindings ns)"
    using assms(2,3) by (auto simp: bindings_def)
  ultimately show ?thesis by (rule map_of_is_SomeI)
qed

lemma map_of_bindings_None:
  "k \<notin> set (interface_ids ns) \<Longrightarrow> map_of (bindings ns) k = None"
  by (simp add: map_of_eq_None_iff fst_set_bindings)

text \<open>
  C6. When the interface ids of the nodes are all different, the index has exactly
  these ids as its keys (in iteration order), it maps the id of every interface of every
  node to the node's name and the interface's name and direction, and it maps no other
  key. The same holds for \<^verbatim>\<open>get_dataflow_ips_interfaces\<close> and the nodes of the graph
  that are not metanodes.
\<close>

theorem interface_index_unique:
  "(distinct (interface_ids ns) \<longrightarrow>
      dict_keys (get_interfaces ns) = interface_ids ns
      \<and> (\<forall>n\<in>set ns. \<forall>i\<in>set (n_interfaces n).
            map_of (get_interfaces ns) (i_id i) =
              Some \<lparr>node_name = n_name n, iface_name = i_name i, iface_dir = i_direction i\<rparr>)
      \<and> (\<forall>k. k \<notin> set (interface_ids ns) \<longrightarrow> map_of (get_interfaces ns) k = None))
   \<and> (distinct (interface_ids (nodes (graph g))) \<longrightarrow>
      dict_keys (get_dataflow_ips_interfaces g) = interface_ids (get_dataflow_ip_nodes g)
      \<and> (\<forall>n\<in>set (nodes (graph g)). \<not> is_external_metanode n \<longrightarrow>
           (\<forall>i\<in>set (n_interfaces n).
              map_of (get_dataflow_ips_interfaces g) (i_id i) =
                Some \<lparr>node_name = n_name n, iface_name = i_name i, iface_dir = i_direction i\<rparr>))
      \<and> (\<forall>k. k \<notin> set (interface_ids (get_dataflow_ip_nodes g)) \<longrightarrow>
             map_of (get_dataflow_ips_interfaces g) k = None))"
proof -
  have general: "dict_keys (get_interfaces xs) = interface_ids xs
      \<and> (\<forall>n\<in>set xs. \<forall>i\<in>set (n_interfaces n).
            map_of (get_interfaces xs) (i_id i) =
              Some \<lparr>node_name = n_name n, iface_name = i_name i, iface_dir = i_direction i\<rparr>)
      \<and> (\<forall>k. k \<notin> set (interface_ids xs) \<longrightarrow> map_of (get_interfaces xs) k = None)"
    if d: "distinct (interface_ids xs)" for xs
  proof -
    have eq: "get_interfaces xs = bindings xs" using d by (rule get_interfaces_distinct)
    have "dict_keys (bindings xs) = interface_ids xs"
      by (simp add: dict_keys_def map_fst_bindings)
    moreover have "map_of (bindings xs) (i_id i) =
        Some \<lparr>node_name = n_name n, iface_name = i_name i, iface_dir = i_direction i\<rparr>"
      if "n \<in> set xs" "i \<in> set (n_interfaces n)" for n i
      using map_of_bindings_distinct [OF d that] by (simp add: entry_of_def)
    ultimately show ?thesis unfolding eq using map_of_bindings_None by blast
  qed
  have ips: "distinct (interface_ids (get_dataflow_ip_nodes g))"
    if "distinct (interface_ids (nodes (graph g)))"
    using that by (simp add: get_dataflow_ip_nodes_def distinct_interface_ids_filter)
  have mem: "n \<in> set (get_dataflow_ip_nodes g) \<longleftrightarrow>
      n \<in> set (nodes (graph g)) \<and> \<not> is_external_metanode n" for n
    by (auto simp: get_dataflow_ip_nodes_def)
  show ?thesis
    using general [of ns] general [OF ips]
    by (simp add: get_dataflow_ips_interfaces_def mem)
qed

theorem interface_index_unique_witness:
  "distinct (interface_ids [u0, out0])
   \<and> get_interfaces [u0, out0] =
       [(''a'', \<lparr>node_name = ''u0'', iface_name = ''tx'', iface_dir = ''output''\<rparr>),
        (''b'', \<lparr>node_name = ''u0'', iface_name = ''rx'', iface_dir = ''input''\<rparr>),
        (''c'', \<lparr>node_name = ''out0'', iface_name = ''external'', iface_dir = ''input''\<rparr>)]
   \<and> dict_keys (get_interfaces [u0, out0]) = [''a'', ''b'', ''c'']
   \<and> map_of (get_interfaces [u0, out0]) ''d'' = None
   \<and> distinct (interface_ids (nodes (graph demo)))
   \<and> dict_keys (get_dataflow_ips_interfaces demo) = [''a'', ''b'']
   \<and> map_of (get_dataflow_ips_interfaces demo) ''b'' =
       Some \<lparr>node_name = ''u0'', iface_name = ''rx'', iface_dir = ''input''\<rparr>
   \<and> map_of (get_dataflow_ips_interfaces demo) ''c'' = None"
proof -
  have ids: "interface_ids [u0, out0] = [''a'', ''b'', ''c'']"
    by (simp add: interface_ids_def demo_defs)
  have idx: "get_interfaces [u0, out0] =
       [(''a'', \<lparr>node_name = ''u0'', iface_name = ''tx'', iface_dir = ''output''\<rparr>),
        (''b'', \<lparr>node_name = ''u0'', iface_name = ''rx'', iface_dir = ''input''\<rparr>),
        (''c'', \<lparr>node_name = ''out0'', iface_name = ''external'', iface_dir = ''input''\<rparr>)]"
    by (simp add: get_interfaces_def demo_defs)
  have u0_mem: "u0 \<in> set (nodes (graph demo))" "\<not> is_external_metanode u0"
    "\<lparr>i_id = ''b'', i_name = ''rx'', i_direction = ''input''\<rparr> \<in> set (n_interfaces u0)"
    by (simp_all add: demo_defs is_external_metanode_iff)
  have u0_b: "n_name u0 = ''u0''"
    "i_id \<lparr>i_id = ''b'', i_name = ''rx'', i_direction = ''input''\<rparr> = ''b''"
    by (simp_all add: u0_def)
  have d1: "distinct (interface_ids [u0, out0])" by (simp add: ids)
  have d2: "distinct (interface_ids (nodes (graph demo)))" by (simp add: demo_ids)
  note fact = interface_index_unique [of "[u0, out0]" demo]
  have keys1: "dict_keys (get_interfaces [u0, out0]) = [''a'', ''b'', ''c'']"
    and none1: "map_of (get_interfaces [u0, out0]) ''d'' = None"
    using fact d1 by (simp_all add: ids)
  have keys2: "dict_keys (get_dataflow_ips_interfaces demo) = [''a'', ''b'']"
    and none2: "map_of (get_dataflow_ips_interfaces demo) ''c'' = None"
    using fact d2 by (simp_all add: demo_ids)
  have "map_of (get_dataflow_ips_interfaces demo)
          (i_id \<lparr>i_id = ''b'', i_name = ''rx'', i_direction = ''input''\<rparr>) =
        Some \<lparr>node_name = n_name u0,
              iface_name = i_name \<lparr>i_id = ''b'', i_name = ''rx'', i_direction = ''input''\<rparr>,
              iface_dir = i_direction \<lparr>i_id = ''b'', i_name = ''rx'', i_direction = ''input''\<rparr>\<rparr>"
    using fact d2 u0_mem by blast
  then have some2: "map_of (get_dataflow_ips_interfaces demo) ''b'' =
       Some \<lparr>node_name = ''u0'', iface_name = ''rx'', iface_dir = ''input''\<rparr>"
    by (simp add: u0_b)
  show ?thesis using d1 idx keys1 none1 d2 keys2 some2 none2 by (simp only: simp_thms)
qed

lemma map_of_rev_last:
  assumes "kvs = pre @ (k, v) # post" "k \<notin> fst ` set post"
  shows "map_of (rev kvs) k = Some v"
proof -
  have "map_of (rev post) k = None" using assms(2) by (simp add: map_of_eq_None_iff)
  then show ?thesis by (simp add: assms(1) map_add_def)
qed

text \<open>
  C10. Whatever ids the nodes carry, unique or not: when an interface \<open>i\<close> of a node
  \<open>n\<close> is the last one in iteration order with its id (no later interface of \<open>n\<close> and no
  interface of a later node has the id), the index maps the id to the entry of \<open>i\<close> on
  \<open>n\<close>, whichever interfaces carried the id before.
\<close>

theorem last_assignment_wins:
  assumes ns: "ns = before @ n # after"
    and ifs: "n_interfaces n = pre @ i # post"
    and post: "i_id i \<notin> i_id ` set post"
    and after: "i_id i \<notin> set (interface_ids after)"
  shows "map_of (get_interfaces ns) (i_id i) =
           Some \<lparr>node_name = n_name n, iface_name = i_name i, iface_dir = i_direction i\<rparr>"
proof -
  let ?b = "\<lambda>m. map (\<lambda>j. (i_id j, entry_of m j))"
  have split: "bindings ns =
      (bindings before @ ?b n pre) @ (i_id i, entry_of n i) # (?b n post @ bindings after)"
    by (simp add: ns ifs bindings_def)
  have "fst ` set (?b n post @ bindings after) = i_id ` set post \<union> set (interface_ids after)"
    by (simp add: image_Un image_image fst_set_bindings)
  then have "i_id i \<notin> fst ` set (?b n post @ bindings after)"
    using post after by simp
  from map_of_rev_last [OF split this] show ?thesis
    by (simp add: get_interfaces_lookup entry_of_def)
qed

theorem last_assignment_wins_witness:
  "interface_ids [u0, u1] = [''a'', ''b'', ''a'', ''a'']
   \<and> map_of (get_interfaces [u0, u1]) ''a'' =
       Some \<lparr>node_name = ''u1'', iface_name = ''rx'', iface_dir = ''input''\<rparr>
   \<and> get_interfaces [u0, u1] =
       [(''a'', \<lparr>node_name = ''u1'', iface_name = ''rx'', iface_dir = ''input''\<rparr>),
        (''b'', \<lparr>node_name = ''u0'', iface_name = ''rx'', iface_dir = ''input''\<rparr>)]"
proof -
  let ?i = "\<lparr>i_id = ''a'', i_name = ''rx'', i_direction = ''input''\<rparr>"
  have ns: "[u0, u1] = [u0] @ u1 # []" by simp
  have ifs: "n_interfaces u1 = [\<lparr>i_id = ''a'', i_name = ''tx'', i_direction = ''output''\<rparr>] @ ?i # []"
    by (simp add: u1_def)
  have post: "i_id ?i \<notin> i_id ` set []" by simp
  have after: "i_id ?i \<notin> set (interface_ids [])" by (simp add: interface_ids_def)
  have ids: "interface_ids [u0, u1] = [''a'', ''b'', ''a'', ''a'']"
    by (simp add: interface_ids_def u0_def u1_def)
  have idx: "get_interfaces [u0, u1] =
       [(''a'', \<lparr>node_name = ''u1'', iface_name = ''rx'', iface_dir = ''input''\<rparr>),
        (''b'', \<lparr>node_name = ''u0'', iface_name = ''rx'', iface_dir = ''input''\<rparr>)]"
    by (simp add: get_interfaces_def u0_def u1_def)
  have "map_of (get_interfaces [u0, u1]) ''a'' =
       Some \<lparr>node_name = ''u1'', iface_name = ''rx'', iface_dir = ''input''\<rparr>"
    using last_assignment_wins [OF ns ifs post after] by (simp add: u1_def)
  then show ?thesis using ids idx by (simp only: simp_thms)
qed

section \<open>Lookups\<close>

lemma find_by_id_lookup:
  "find_dataflow_interface_by_id g k = map_of (rev (bindings (nodes (graph g)))) k"
proof -
  let ?d = "get_interfaces (nodes (graph g))"
  have "k \<notin> set (dict_keys ?d) \<Longrightarrow> map_of ?d k = None"
    by (simp add: dict_keys_def map_of_eq_None_iff)
  then show ?thesis
    by (auto simp: find_dataflow_interface_by_id_def Let_def get_interfaces_lookup)
qed

lemma bindings_member:
  "(k, v) \<in> set (bindings ns) \<Longrightarrow>
     \<exists>n\<in>set ns. \<exists>i\<in>set (n_interfaces n). i_id i = k \<and> v = entry_of n i"
  by (auto simp: bindings_def)

text \<open>
  C7. \<^verbatim>\<open>find_dataflow_interface_by_id\<close> looks the id up among the interfaces of all
  nodes of the graph, IP cores and metanodes alike: for an id that some node carries it
  returns the entry (node name, interface name, direction) of an interface with that id,
  and for an id that no node carries it returns \<^verbatim>\<open>None\<close>. When the ids of the graph are
  all different, every interface of every node is found under its id.
\<close>

theorem find_interface_by_id_all_nodes:
  "(k \<in> set (interface_ids (nodes (graph g))) \<longrightarrow>
      (\<exists>n\<in>set (nodes (graph g)). \<exists>i\<in>set (n_interfaces n). i_id i = k \<and>
         find_dataflow_interface_by_id g k =
           Some \<lparr>node_name = n_name n, iface_name = i_name i, iface_dir = i_direction i\<rparr>))
   \<and> (k \<notin> set (interface_ids (nodes (graph g))) \<longrightarrow> find_dataflow_interface_by_id g k = None)
   \<and> set (interface_ids (nodes (graph g))) =
        set (interface_ids (get_dataflow_ip_nodes g)) \<union> set (interface_ids (get_dataflow_metanodes g))
   \<and> (distinct (interface_ids (nodes (graph g))) \<longrightarrow>
        (\<forall>n\<in>set (nodes (graph g)). \<forall>i\<in>set (n_interfaces n).
           find_dataflow_interface_by_id g (i_id i) =
             Some \<lparr>node_name = n_name n, iface_name = i_name i, iface_dir = i_direction i\<rparr>))"
proof -
  let ?ns = "nodes (graph g)"
  have present: "\<exists>n\<in>set ?ns. \<exists>i\<in>set (n_interfaces n). i_id i = k \<and>
         find_dataflow_interface_by_id g k =
           Some \<lparr>node_name = n_name n, iface_name = i_name i, iface_dir = i_direction i\<rparr>"
    if k: "k \<in> set (interface_ids ?ns)"
  proof -
    have "k \<in> fst ` set (rev (bindings ?ns))" using k by (simp add: fst_set_bindings)
    then obtain v where v: "map_of (rev (bindings ?ns)) k = Some v"
      by (metis map_of_eq_None_iff not_Some_eq)
    then have "(k, v) \<in> set (bindings ?ns)" using map_of_SomeD by fastforce
    from bindings_member [OF this] v show ?thesis
      by (auto simp: find_by_id_lookup entry_of_def)
  qed
  have absent: "find_dataflow_interface_by_id g k = None" if "k \<notin> set (interface_ids ?ns)"
    using that by (simp add: find_by_id_lookup map_of_eq_None_iff fst_set_bindings)
  have both: "set (interface_ids ?ns) =
        set (interface_ids (get_dataflow_ip_nodes g)) \<union> set (interface_ids (get_dataflow_metanodes g))"
    using interface_ids_split [of ?ns is_external_metanode]
    by (simp add: get_dataflow_ip_nodes_def get_dataflow_metanodes_def Un_commute)
  have uniq: "find_dataflow_interface_by_id g (i_id i) =
             Some \<lparr>node_name = n_name n, iface_name = i_name i, iface_dir = i_direction i\<rparr>"
    if d: "distinct (interface_ids ?ns)" and n: "n \<in> set ?ns" and i: "i \<in> set (n_interfaces n)"
    for n i
  proof -
    have "distinct (map fst (rev (bindings ?ns)))"
      using d by (simp add: map_fst_bindings [symmetric] rev_map [symmetric] del: map_fst_bindings)
    moreover have "(i_id i, entry_of n i) \<in> set (rev (bindings ?ns))"
      using n i by (auto simp: bindings_def)
    ultimately have "map_of (rev (bindings ?ns)) (i_id i) = Some (entry_of n i)"
      by (rule map_of_is_SomeI)
    then show ?thesis by (simp add: find_by_id_lookup entry_of_def)
  qed
  show ?thesis using present absent both uniq by blast
qed

theorem find_interface_by_id_all_nodes_witness:
  "distinct (interface_ids (nodes (graph demo)))
   \<and> ''a'' \<in> set (interface_ids (get_dataflow_ip_nodes demo))
   \<and> find_dataflow_interface_by_id demo ''a'' =
       Some \<lparr>node_name = ''u0'', iface_name = ''tx'', iface_dir = ''output''\<rparr>
   \<and> ''c'' \<in> set (interface_ids (get_dataflow_metanodes demo))
   \<and> find_dataflow_interface_by_id demo ''c'' =
       Some \<lparr>node_name = ''out0'', iface_name = ''external'', iface_dir = ''input''\<rparr>
   \<and> ''zz'' \<notin> set (interface_ids (nodes (graph demo)))
   \<and> find_dataflow_interface_by_id demo ''zz'' = None"
proof -
  let ?tx = "\<lparr>i_id = ''a'', i_name = ''tx'', i_direction = ''output''\<rparr>"
  let ?ext = "\<lparr>i_id = ''c'', i_name = ''external'', i_direction = ''input''\<rparr>"
  have d: "distinct (interface_ids (nodes (graph demo)))" by (simp add: demo_ids)
  have mem: "u0 \<in> set (nodes (graph demo))" "?tx \<in> set (n_interfaces u0)"
    "out0 \<in> set (nodes (graph demo))" "?ext \<in> set (n_interfaces out0)"
    by (simp_all add: demo_defs)
  have dangling: "''zz'' \<notin> set (interface_ids (nodes (graph demo)))" by (simp add: demo_ids)
  have ids: "''a'' \<in> set (interface_ids (get_dataflow_ip_nodes demo))"
    "''c'' \<in> set (interface_ids (get_dataflow_metanodes demo))"
    by (simp_all add: demo_ids)
  note fact = find_interface_by_id_all_nodes [of _ demo]
  have "find_dataflow_interface_by_id demo (i_id ?tx) =
      Some \<lparr>node_name = n_name u0, iface_name = i_name ?tx, iface_dir = i_direction ?tx\<rparr>"
    using fact [of "''a''"] d mem(1,2) by blast
  then have a: "find_dataflow_interface_by_id demo ''a'' =
       Some \<lparr>node_name = ''u0'', iface_name = ''tx'', iface_dir = ''output''\<rparr>"
    by (simp add: u0_def)
  have "find_dataflow_interface_by_id demo (i_id ?ext) =
      Some \<lparr>node_name = n_name out0, iface_name = i_name ?ext, iface_dir = i_direction ?ext\<rparr>"
    using fact [of "''c''"] d mem(3,4) by blast
  then have c: "find_dataflow_interface_by_id demo ''c'' =
       Some \<lparr>node_name = ''out0'', iface_name = ''external'', iface_dir = ''input''\<rparr>"
    by (simp add: out0_def)
  have z: "find_dataflow_interface_by_id demo ''zz'' = None"
    using fact [of "''zz''"] dangling by blast
  show ?thesis using d ids a c dangling z by (simp only: simp_thms)
qed

lemma scan_names_find:
  "scan_names ns name = map_option n_type (List.find (\<lambda>n. n_name n = name) ns)"
  by (induction ns) simp_all

lemma scan_names_skip:
  "\<forall>m\<in>set xs. n_name m \<noteq> name \<Longrightarrow> scan_names (xs @ ys) name = scan_names ys name"
  by (induction xs) simp_all

text \<open>
  C8. \<^verbatim>\<open>find_dataflow_node_type_by_name\<close> returns the type of the first node of the
  graph's node list whose name is the given one (every node before it has another name),
  and \<^verbatim>\<open>None\<close> when no node of the graph has that name.
\<close>

theorem find_node_type_first_match:
  "find_dataflow_node_type_by_name g name =
     map_option n_type (List.find (\<lambda>n. n_name n = name) (nodes (graph g)))
   \<and> ((\<forall>n\<in>set (nodes (graph g)). n_name n \<noteq> name) \<longrightarrow>
        find_dataflow_node_type_by_name g name = None)
   \<and> (nodes (graph g) = pre @ n # post \<and> n_name n = name \<and> (\<forall>m\<in>set pre. n_name m \<noteq> name) \<longrightarrow>
        find_dataflow_node_type_by_name g name = Some (n_type n))"
proof -
  have eq: "find_dataflow_node_type_by_name g name =
     map_option n_type (List.find (\<lambda>n. n_name n = name) (nodes (graph g)))"
    by (simp add: find_dataflow_node_type_by_name_def scan_names_find)
  have none: "find_dataflow_node_type_by_name g name = None"
    if "\<forall>n\<in>set (nodes (graph g)). n_name n \<noteq> name"
    using that by (simp add: eq find_None_iff)
  have first: "find_dataflow_node_type_by_name g name = Some (n_type n)"
    if "nodes (graph g) = pre @ n # post" "n_name n = name" "\<forall>m\<in>set pre. n_name m \<noteq> name"
    using that scan_names_skip [of pre name "n # post"]
    by (simp add: find_dataflow_node_type_by_name_def)
  show ?thesis using eq none first by blast
qed

theorem find_node_type_first_match_witness:
  "nodes (graph demo) = [u0] @ out0 # [in0]
   \<and> n_name out0 = ''out0'' \<and> n_name u0 \<noteq> ''out0''
   \<and> find_dataflow_node_type_by_name demo ''out0'' = Some ''External Output''
   \<and> n_name u0 \<noteq> ''spi0'' \<and> n_name out0 \<noteq> ''spi0'' \<and> n_name in0 \<noteq> ''spi0''
   \<and> find_dataflow_node_type_by_name demo ''spi0'' = None"
proof -
  have split: "nodes (graph demo) = [u0] @ out0 # [in0]" by (simp add: demo_def)
  have names: "n_name out0 = ''out0''" "n_name u0 \<noteq> ''out0''"
    "n_name u0 \<noteq> ''spi0''" "n_name out0 \<noteq> ''spi0''" "n_name in0 \<noteq> ''spi0''"
    by (simp_all add: demo_defs)
  have pre: "\<forall>m\<in>set [u0]. n_name m \<noteq> ''out0''" using names by simp
  have nobody: "\<forall>n\<in>set (nodes (graph demo)). n_name n \<noteq> ''spi0''"
    using names by (simp add: demo_def)
  have "find_dataflow_node_type_by_name demo ''out0'' = Some (n_type out0)"
    using find_node_type_first_match [of demo "''out0''" "[u0]" out0 "[in0]"] split names(1) pre
    by blast
  then have found: "find_dataflow_node_type_by_name demo ''out0'' = Some ''External Output''"
    by (simp add: out0_def)
  have missing: "find_dataflow_node_type_by_name demo ''spi0'' = None"
    using find_node_type_first_match [of demo "''spi0''"] nobody by blast
  show ?thesis using split names found missing by (simp only: simp_thms)
qed

lemma scan_interfaces_find:
  "scan_interfaces xs name = List.find (\<lambda>i. si_name i = name) xs"
  by (induction xs) simp_all

lemma find_append_case:
  "List.find P (xs @ ys) = (case List.find P xs of Some x \<Rightarrow> Some x | None \<Rightarrow> List.find P ys)"
  by (induction xs) simp_all

lemma scan_nodes_find:
  "scan_nodes ns t name =
     List.find (\<lambda>i. si_name i = name) (concat (map sn_interfaces (filter (\<lambda>n. sn_type n = t) ns)))"
  by (induction ns) (simp_all add: scan_interfaces_find find_append_case split: option.splits)

text \<open>
  C5. \<^verbatim>\<open>find_spec_interface_by_name\<close> returns the first interface with the given name
  among the interfaces of the catalog entries of the given type, entries in catalog order
  and interfaces in each entry's order. It returns \<^verbatim>\<open>None\<close> when no entry has the type,
  and when no interface of an entry of the type has the name; a result it returns has the
  name and belongs to an entry of the type.
\<close>

theorem find_spec_interface_type_then_name:
  "find_spec_interface_by_name spec t name =
     List.find (\<lambda>i. si_name i = name)
       (concat (map sn_interfaces (filter (\<lambda>n. sn_type n = t) (spec_nodes spec))))
   \<and> ((\<forall>n\<in>set (spec_nodes spec). sn_type n \<noteq> t) \<longrightarrow>
        find_spec_interface_by_name spec t name = None)
   \<and> ((\<forall>n\<in>set (spec_nodes spec). sn_type n = t \<longrightarrow>
          (\<forall>i\<in>set (sn_interfaces n). si_name i \<noteq> name)) \<longrightarrow>
        find_spec_interface_by_name spec t name = None)
   \<and> (find_spec_interface_by_name spec t name = Some r \<longrightarrow>
        si_name r = name \<and> (\<exists>n\<in>set (spec_nodes spec). sn_type n = t \<and> r \<in> set (sn_interfaces n)))"
proof -
  let ?flat = "concat (map sn_interfaces (filter (\<lambda>n. sn_type n = t) (spec_nodes spec)))"
  have eq: "find_spec_interface_by_name spec t name = List.find (\<lambda>i. si_name i = name) ?flat"
    by (simp add: find_spec_interface_by_name_def scan_nodes_find)
  have notype: "find_spec_interface_by_name spec t name = None"
    if "\<forall>n\<in>set (spec_nodes spec). sn_type n \<noteq> t"
  proof -
    have "filter (\<lambda>n. sn_type n = t) (spec_nodes spec) = []"
      using that by (simp add: filter_empty_conv)
    then show ?thesis by (simp add: eq)
  qed
  have noname: "find_spec_interface_by_name spec t name = None"
    if "\<forall>n\<in>set (spec_nodes spec). sn_type n = t \<longrightarrow>
          (\<forall>i\<in>set (sn_interfaces n). si_name i \<noteq> name)"
    using that by (auto simp: eq find_None_iff)
  have found: "si_name r = name \<and>
      (\<exists>n\<in>set (spec_nodes spec). sn_type n = t \<and> r \<in> set (sn_interfaces n))"
    if "find_spec_interface_by_name spec t name = Some r"
  proof -
    from that have f: "List.find (\<lambda>i. si_name i = name) ?flat = Some r" by (simp add: eq)
    then obtain j where j: "j < length ?flat" "si_name (?flat ! j) = name" "r = ?flat ! j"
      unfolding find_Some_iff by blast
    have nm: "si_name r = name" using j(2,3) by (simp only:)
    from j(1) have "?flat ! j \<in> set ?flat" by (rule nth_mem)
    with j(3) have mem: "r \<in> set ?flat" by (simp only:)
    from mem obtain n where "n \<in> set (spec_nodes spec)" "sn_type n = t" "r \<in> set (sn_interfaces n)"
      by auto
    with nm show ?thesis by blast
  qed
  show ?thesis using eq notype noname found by blast
qed

theorem find_spec_interface_type_then_name_witness:
  "find_spec_interface_by_name demo_spec ''uart'' ''rx'' = Some \<lparr>si_name = ''rx'', si_rest = ''input''\<rparr>
   \<and> si_name \<lparr>si_name = ''rx'', si_rest = ''input''\<rparr> = ''rx''
   \<and> ''i2c'' \<notin> sn_type ` set (spec_nodes demo_spec)
   \<and> find_spec_interface_by_name demo_spec ''i2c'' ''rx'' = None
   \<and> ''uart'' \<in> sn_type ` set (spec_nodes demo_spec)
   \<and> find_spec_interface_by_name demo_spec ''uart'' ''clk'' = None"
proof -
  let ?rx = "\<lparr>si_name = ''rx'', si_rest = ''input''\<rparr>"
  have types: "''i2c'' \<notin> sn_type ` set (spec_nodes demo_spec)"
    "''uart'' \<in> sn_type ` set (spec_nodes demo_spec)"
    by (simp_all add: demo_spec_def)
  have notype: "\<forall>n\<in>set (spec_nodes demo_spec). sn_type n \<noteq> ''i2c''"
    by (simp add: demo_spec_def)
  have noname: "\<forall>n\<in>set (spec_nodes demo_spec). sn_type n = ''uart'' \<longrightarrow>
      (\<forall>i\<in>set (sn_interfaces n). si_name i \<noteq> ''clk'')"
    by (simp add: demo_spec_def)
  have flat: "List.find (\<lambda>i. si_name i = ''rx'')
       (concat (map sn_interfaces (filter (\<lambda>n. sn_type n = ''uart'') (spec_nodes demo_spec))))
      = Some ?rx"
    by (simp add: demo_spec_def)
  have found: "find_spec_interface_by_name demo_spec ''uart'' ''rx'' = Some ?rx"
    using find_spec_interface_type_then_name [of demo_spec "''uart''" "''rx''" ?rx] flat
    by (simp only:)
  have named: "si_name ?rx = ''rx''"
    using find_spec_interface_type_then_name [of demo_spec "''uart''" "''rx''" ?rx] found
    by blast
  have none1: "find_spec_interface_by_name demo_spec ''i2c'' ''rx'' = None"
    using find_spec_interface_type_then_name [of demo_spec "''i2c''" "''rx''"] notype by blast
  have none2: "find_spec_interface_by_name demo_spec ''uart'' ''clk'' = None"
    using find_spec_interface_type_then_name [of demo_spec "''uart''" "''clk''"] noname by blast
  show ?thesis using found named types none1 none2 by (simp only: simp_thms)
qed

section \<open>Descriptors emitted for a catalog\<close>

text \<open>
  C9. The specification emitted for a catalog holds one descriptor per catalog entry, in
  catalog order and with the entry's type and its interfaces' names and directions,
  followed by the external-input and the external-output descriptor, each of which has
  exactly one interface; so it holds two descriptors more than the catalog has entries,
  14 for a catalog of 12.
\<close>

theorem editor_specification_descriptors:
  "length (to_editor_specification port catalog) = length catalog + 2
   \<and> take (length catalog) (to_editor_specification port catalog) = map entry_descriptor catalog
   \<and> drop (length catalog) (to_editor_specification port catalog) =
       [external_input_descriptor port, external_output_descriptor port]
   \<and> map d_type (to_editor_specification port catalog) =
       map ce_type catalog @ [''External Input'', ''External Output'']
   \<and> (\<forall>i<length catalog.
         map di_name (d_interfaces (to_editor_specification port catalog ! i)) =
           map ci_name (ce_interfaces (catalog ! i))
         \<and> map di_direction (d_interfaces (to_editor_specification port catalog ! i)) =
           map ci_direction (ce_interfaces (catalog ! i)))
   \<and> d_interfaces (external_input_descriptor port) = [\<lparr>di_name = port, di_direction = Output\<rparr>]
   \<and> d_interfaces (external_output_descriptor port) = [\<lparr>di_name = port, di_direction = Input\<rparr>]
   \<and> length (d_interfaces (external_input_descriptor port)) = 1
   \<and> length (d_interfaces (external_output_descriptor port)) = 1
   \<and> (length catalog = 12 \<longrightarrow> length (to_editor_specification port catalog) = 14)"
proof -
  have len: "length (to_editor_specification port catalog) = length catalog + 2"
    by (simp add: to_editor_specification_def)
  have front: "take (length catalog) (to_editor_specification port catalog) =
      map entry_descriptor catalog"
    and rear: "drop (length catalog) (to_editor_specification port catalog) =
      [external_input_descriptor port, external_output_descriptor port]"
    by (simp_all add: to_editor_specification_def)
  have types: "map d_type (to_editor_specification port catalog) =
       map ce_type catalog @ [''External Input'', ''External Output'']"
    by (simp add: to_editor_specification_def entry_descriptor_def comp_def
        external_input_descriptor_def external_output_descriptor_def
        EXT_INPUT_NAME_def EXT_OUTPUT_NAME_def)
  have mirror: "map di_name (d_interfaces (to_editor_specification port catalog ! i)) =
           map ci_name (ce_interfaces (catalog ! i))
         \<and> map di_direction (d_interfaces (to_editor_specification port catalog ! i)) =
           map ci_direction (ce_interfaces (catalog ! i))" if "i < length catalog" for i
    using that
    by (simp add: to_editor_specification_def nth_append entry_descriptor_def comp_def)
  have ext: "d_interfaces (external_input_descriptor port) = [\<lparr>di_name = port, di_direction = Output\<rparr>]"
    "d_interfaces (external_output_descriptor port) = [\<lparr>di_name = port, di_direction = Input\<rparr>]"
    by (simp_all add: external_input_descriptor_def external_output_descriptor_def)
  show ?thesis using len front rear types mirror ext by simp
qed

theorem editor_specification_descriptors_witness:
  "length hdmi_catalog = 12
   \<and> length (to_editor_specification ''external'' hdmi_catalog) = 14
   \<and> map d_type (drop 12 (to_editor_specification ''external'' hdmi_catalog)) =
       [''External Input'', ''External Output'']"
proof -
  have twelve: "length hdmi_catalog = 12" by (simp add: hdmi_catalog_def)
  note fact = editor_specification_descriptors [of "''external''" hdmi_catalog]
  have fourteen: "length (to_editor_specification ''external'' hdmi_catalog) = 14"
    using fact twelve by blast
  have "drop (length hdmi_catalog) (to_editor_specification ''external'' hdmi_catalog) =
      [external_input_descriptor ''external'', external_output_descriptor ''external'']"
    using fact by blast
  then have last: "map d_type (drop 12 (to_editor_specification ''external'' hdmi_catalog)) =
       [''External Input'', ''External Output'']"
    by (simp add: twelve external_input_descriptor_def external_output_descriptor_def
        EXT_INPUT_NAME_def EXT_OUTPUT_NAME_def)
  show ?thesis using twelve fourteen last by (simp only: simp_thms)
qed

end
